theory Spec2Isabelle
  imports Main "HOL-Library.Sublist"
begin

section \<open>JavaScript values used by the client\<close>

text \<open>
  Payloads that the client only passes along (job results, progress-log entries) are JSON values.
\<close>

datatype json =
    JNull
  | JBool bool
  | JNum int
  | JStr string
  | JArr "json list"
  | JObj "(string \<times> json) list"

text \<open>
  Every error the client throws is built with \<open>new Error(message)\<close>; a rejected \<open>fetch\<close>
  brings an error object of the platform. An error value carries its \<open>name\<close> (the kind a
  caller can inspect: \<open>Error\<close>, \<open>TypeError\<close>, ...) and its \<open>message\<close>.
\<close>

datatype js_error = JsError (err_name: string) (err_message: string)

definition new_Error :: "string \<Rightarrow> js_error" where
  "new_Error msg = JsError ''Error'' msg"

text \<open>
  An optional string field of a parsed object: \<open>None\<close> is \<open>undefined\<close>. A string is truthy
  when it is not empty; \<open>x || d\<close> is \<open>x\<close> when \<open>x\<close> is truthy and \<open>d\<close> otherwise. Where the
  code reads a field under a guard that it is truthy, \<open>or_else x []\<close> is that string.
\<close>

fun truthy :: "string option \<Rightarrow> bool" where
  "truthy None = False"
| "truthy (Some s) = (s \<noteq> [])"

fun or_else :: "string option \<Rightarrow> string \<Rightarrow> string" where
  "or_else None d = d"
| "or_else (Some s) d = (if s \<noteq> [] then s else d)"

text \<open>\<open>s.includes(p)\<close>: \<open>p\<close> occurs in \<open>s\<close> as a contiguous substring.\<close>

definition js_includes :: "string \<Rightarrow> string \<Rightarrow> bool" where
  "js_includes s p = sublist p s"

text \<open>Decimal rendering of a non-negative integer, as a template literal prints it.\<close>

definition digit_char :: "nat \<Rightarrow> char" where
  "digit_char d = ''0123456789'' ! d"

function show_nat :: "nat \<Rightarrow> string" where
  "show_nat n = (if n < 10 then [digit_char n] else show_nat (n div 10) @ [digit_char (n mod 10)])"
  by pat_completeness auto
termination
  by (relation "measure id") auto

declare show_nat.simps [simp del]

text \<open>The non-ASCII prefixes of the progress lines, as their UTF-8 bytes.\<close>

definition hourglass :: string where
  "hourglass = [CHR 0xE2, CHR 0x8F, CHR 0xB3]"

definition arrows :: string where
  "arrows = [CHR 0xF0, CHR 0x9F, CHR 0x94, CHR 0x84]"

definition warning_sign :: string where
  "warning_sign = [CHR 0xE2, CHR 0x9A, CHR 0xA0,
                   CHR 0xEF, CHR 0xB8, CHR 0x8F]"

definition cross_mark :: string where
  "cross_mark = [CHR 0xE2, CHR 0x9D, CHR 0x8C]"

section \<open>Page state touched by the stream client\<close>

text \<open>
  \<open>activeEventSources\<close> is the array of \<open>AppState\<close>; an \<open>EventSource\<close> object is identified
  by the number it received when it was constructed (\<open>nextSource\<close> is the next free one).
  \<open>closeCalls\<close> lists the sources on which \<open>close()\<close> was called, \<open>progressCalls\<close> the
  invocations of \<open>addProgress(message, type)\<close>, \<open>timers\<close> the delays (ms) given to
  \<open>setTimeout\<close>, each in call order.
\<close>

record app =
  activeEventSources :: "nat list"
  nextSource :: nat
  closeCalls :: "nat list"
  progressCalls :: "(string \<times> string) list"
  timers :: "nat list"

definition addProgress :: "string \<Rightarrow> string \<Rightarrow> app \<Rightarrow> app" where
  "addProgress msg type st = st\<lparr>progressCalls := progressCalls st @ [(msg, type)]\<rparr>"

definition close :: "nat \<Rightarrow> app \<Rightarrow> app" where
  "close src st = st\<lparr>closeCalls := closeCalls st @ [src]\<rparr>"

definition setTimeout :: "nat \<Rightarrow> app \<Rightarrow> app" where
  "setTimeout delay st = st\<lparr>timers := timers st @ [delay]\<rparr>"

definition new_EventSource :: "app \<Rightarrow> nat \<times> app" where
  "new_EventSource st = (nextSource st, st\<lparr>nextSource := Suc (nextSource st)\<rparr>)"

definition push_source :: "nat \<Rightarrow> app \<Rightarrow> app" where
  "push_source src st = st\<lparr>activeEventSources := activeEventSources st @ [src]\<rparr>"

section \<open>streamJobProgress\<close>

text \<open>A parsed stream frame (\<open>JSON.parse(event.data)\<close>), with the fields the handler reads.\<close>

record frame =
  heartbeat :: "bool option"
  status :: "string option"
  message :: "string option"
  error :: "string option"
  result :: "json option"

datatype event = Message frame | ErrorEvent

text \<open>How the promise is settled by a handler: \<open>resolve(v)\<close> or \<open>reject(e)\<close>.\<close>

datatype settle = Resolve "json option" | Reject js_error

definition maxReconnects :: nat where
  "maxReconnects = 3"

definition baseDelay :: nat where
  "baseDelay = 2000"

text \<open>
  \<open>eventSource.onmessage\<close>: the new page state, and the settlement when the frame is terminal.
\<close>

definition onmessage :: "string \<Rightarrow> nat \<Rightarrow> frame \<Rightarrow> app \<Rightarrow> app \<times> settle option" where
  "onmessage emoji src data st =
     (if heartbeat data = Some True then (st, None)
      else if status data = Some ''completed'' then
        (close src (addProgress (emoji @ '' Complete!'') ''info'' st), Some (Resolve (result data)))
      else if status data = Some ''failed'' then
        (close src (addProgress (emoji @ '' Failed: '' @ or_else (error data) ''Unknown error'') ''error'' st),
         Some (Reject (new_Error (or_else (error data) ''Job failed''))))
      else if status data = Some ''cancelled'' then
        (close src (addProgress (emoji @ '' Job cancelled'') ''info'' st),
         Some (Reject (new_Error ''Job cancelled by user'')))
      else
        (let st1 = (if truthy (message data) then addProgress (or_else (message data) []) ''info'' st else st);
             st2 = (if truthy (status data) \<and> \<not> truthy (message data)
                    then addProgress (arrows @ '' '' @ or_else (status data) []) ''info'' st1 else st1)
         in (st2, None)))"

text \<open>
  \<open>eventSource.onerror\<close>: closes the source, then either schedules the reconnection
  (\<open>Inl delay\<close>) or gives the error the promise is rejected with.
\<close>

definition onerror :: "nat \<Rightarrow> nat \<Rightarrow> app \<Rightarrow> app \<times> (nat + js_error)" where
  "onerror src reconnectAttempts st =
     (let st1 = close src st in
      if reconnectAttempts < maxReconnects then
        (let delay = baseDelay * 2 ^ reconnectAttempts;
             st2 = addProgress (warning_sign @ '' Connection lost. Reconnecting in ''
                                @ show_nat (delay div 1000) @ ''s...'') ''info'' st1
         in (setTimeout delay st2, Inl delay))
      else
        (addProgress (cross_mark @ '' Connection failed after '' @ show_nat maxReconnects
                      @ '' attempts'') ''error'' st1,
         Inr (new_Error ''Stream connection failed after retries'')))"

text \<open>
  The events one source receives, in order, until a handler closes it: a closed source
  delivers nothing more. A source whose events run out stays open.
\<close>

datatype source_end = StillOpen | Settled settle | Errored

fun run_source :: "string \<Rightarrow> nat \<Rightarrow> event list \<Rightarrow> app \<Rightarrow> app \<times> source_end" where
  "run_source emoji src [] st = (st, StillOpen)"
| "run_source emoji src (Message data # es) st =
     (case onmessage emoji src data st of
        (st', None) \<Rightarrow> run_source emoji src es st'
      | (st', Some s) \<Rightarrow> (st', Settled s))"
| "run_source emoji src (ErrorEvent # es) st = (st, Errored)"

text \<open>The state of the promise that \<open>streamJobProgress\<close> returns.\<close>

datatype outcome = Pending | Resolved "json option" | Rejected js_error

fun settled :: "settle \<Rightarrow> outcome" where
  "settled (Resolve v) = Resolved v"
| "settled (Reject e) = Rejected e"

text \<open>
  \<open>server jobId n\<close> is what the backend delivers on the connection opened by the call with
  \<open>reconnectAttempts = n\<close>. The promise of a reconnection settles the outer one
  (\<open>.then(resolve).catch(reject)\<close>), so the result of the recursive call is the result.
\<close>

function streamJobProgress ::
  "(string \<Rightarrow> nat \<Rightarrow> event list) \<Rightarrow> string \<Rightarrow> string \<Rightarrow> nat \<Rightarrow> app \<Rightarrow> app \<times> outcome" where
  "streamJobProgress server jobId emoji reconnectAttempts st =
     (case new_EventSource st of (eventSource, st0) \<Rightarrow>
        (case run_source emoji eventSource (server jobId reconnectAttempts) (push_source eventSource st0) of
           (st1, StillOpen) \<Rightarrow> (st1, Pending)
         | (st1, Settled s) \<Rightarrow> (st1, settled s)
         | (st1, Errored) \<Rightarrow>
             (case onerror eventSource reconnectAttempts st1 of
                (st2, Inl delay) \<Rightarrow> streamJobProgress server jobId emoji (reconnectAttempts + 1) st2
              | (st2, Inr e) \<Rightarrow> (st2, Rejected e))))"
  by pat_completeness auto
termination
  by (relation "measure (\<lambda>(server, jobId, emoji, reconnectAttempts, st). maxReconnects - reconnectAttempts)")
     (auto simp: onerror_def Let_def split: if_splits)

declare streamJobProgress.simps [simp del]


text \<open>The page state before anything was opened, logged or scheduled.\<close>

definition app0 :: app where
  "app0 = \<lparr>activeEventSources = [], nextSource = 0, closeCalls = [], progressCalls = [], timers = []\<rparr>"

text \<open>
  The frames on which \<open>onmessage\<close> takes one of its three settling branches, the event
  sequences on which a source reaches \<open>onerror\<close> before any such frame, and the sequences
  made of heartbeat frames only.
\<close>

definition is_terminal :: "frame \<Rightarrow> bool" where
  "is_terminal data = (heartbeat data \<noteq> Some True \<and>
     (status data = Some ''completed'' \<or> status data = Some ''failed'' \<or> status data = Some ''cancelled''))"

fun errors_out :: "event list \<Rightarrow> bool" where
  "errors_out [] = False"
| "errors_out (ErrorEvent # es) = True"
| "errors_out (Message data # es) = (\<not> is_terminal data \<and> errors_out es)"

fun heartbeats_only :: "frame list \<Rightarrow> bool" where
  "heartbeats_only [] = True"
| "heartbeats_only (data # ds) = (heartbeat data = Some True \<and> heartbeats_only ds)"

text \<open>Two page states with the same sources, close calls and timers.\<close>

definition same_channels :: "app \<Rightarrow> app \<Rightarrow> bool" where
  "same_channels s t = (activeEventSources t = activeEventSources s \<and> nextSource t = nextSource s
     \<and> closeCalls t = closeCalls s \<and> timers t = timers s)"

section \<open>pollJobCompletion\<close>

text \<open>The body of \<open>GET /api/job/<id>\<close> as parsed by \<open>response.json()\<close>.\<close>

record job =
  job_error :: "string option"
  job_status :: "string option"
  progress_log :: "json list option"
  job_result :: "json option"

text \<open>One request: \<open>fetch\<close> or \<open>response.json()\<close> rejects, or a body arrives.\<close>

datatype response = FetchRejects js_error | Json job

text \<open>
  What the caller observes while polling: the arguments \<open>onProgress\<close> was invoked with,
  and the time (ms since \<open>startTime\<close>) at which each request was issued.
\<close>

record poll_state =
  progressDelivered :: "json list"
  fetchTimes :: "nat list"

definition poll0 :: poll_state where
  "poll0 = \<lparr>progressDelivered = [], fetchTimes = []\<rparr>"

definition pollInterval :: nat where
  "pollInterval = 1000"

text \<open>
  The statements of the \<open>try\<close> block after the body has arrived, up to the wait.
  \<open>onProgress\<close> tells whether a callback was passed (the default is \<open>null\<close>).
\<close>

datatype poll_step = Return "json option" | Throw js_error | Wait

definition poll_try :: "bool \<Rightarrow> job \<Rightarrow> poll_state \<Rightarrow> poll_state \<times> poll_step" where
  "poll_try onProgress job ps =
     (if truthy (job_error job) \<and> \<not> truthy (job_status job) then
        (ps, Throw (new_Error (or_else (job_error job) [])))
      else
        (let ps1 = (case progress_log job of
                      None \<Rightarrow> ps
                    | Some log \<Rightarrow>
                        if onProgress \<and> length log > 0
                        then ps\<lparr>progressDelivered := progressDelivered ps @ [log ! (length log - 1)]\<rparr>
                        else ps)
         in if job_status job = Some ''completed'' then (ps1, Return (job_result job))
            else if job_status job = Some ''failed'' then
              (ps1, Throw (new_Error (or_else (job_error job) ''Job failed'')))
            else if job_status job = Some ''cancelled'' then
              (ps1, Throw (new_Error ''Job was cancelled''))
            else (ps1, Wait)))"

text \<open>The \<open>catch\<close> block: the error that leaves the function.\<close>

definition poll_catch :: "js_error \<Rightarrow> js_error" where
  "poll_catch e =
     (if js_includes (err_message e) ''Job not found'' then new_Error ''Job expired or not found''
      else e)"

text \<open>
  The \<open>while\<close> loop. \<open>backend n\<close> is the time the \<open>n\<close>-th request takes (ms) and what it
  brings; \<open>elapsed\<close> is \<open>Date.now() - startTime\<close> at the loop test. The timer of the wait
  fires after \<open>pollInterval\<close>; the callback does not throw. The result is the caller's
  observations, the time at which the promise settles, and how it settles: \<open>Inr\<close> the
  value it resolves with, \<open>Inl\<close> the error it is rejected with.
\<close>

function pollLoop ::
  "(nat \<Rightarrow> nat \<times> response) \<Rightarrow> bool \<Rightarrow> nat \<Rightarrow> nat \<Rightarrow> nat \<Rightarrow> poll_state
     \<Rightarrow> poll_state \<times> nat \<times> (js_error + json option)" where
  "pollLoop backend onProgress maxWaitMs n elapsed ps =
     (if elapsed < maxWaitMs then
        (case backend n of (latency, r) \<Rightarrow>
           (let ps0 = ps\<lparr>fetchTimes := fetchTimes ps @ [elapsed]\<rparr>;
                now = elapsed + latency
            in case r of
                 FetchRejects e \<Rightarrow> (ps0, now, Inl (poll_catch e))
               | Json job \<Rightarrow>
                   (case poll_try onProgress job ps0 of
                      (ps1, Return v) \<Rightarrow> (ps1, now, Inr v)
                    | (ps1, Throw e) \<Rightarrow> (ps1, now, Inl (poll_catch e))
                    | (ps1, Wait) \<Rightarrow>
                        pollLoop backend onProgress maxWaitMs (Suc n) (now + pollInterval) ps1)))
      else (ps, elapsed, Inl (new_Error ''Timeout waiting for job completion'')))"
  by pat_completeness auto
termination
  by (relation "measure (\<lambda>(backend, onProgress, maxWaitMs, n, elapsed, ps). maxWaitMs - elapsed)")
     (auto simp: pollInterval_def)

declare pollLoop.simps [simp del]

definition pollJobCompletion ::
  "(string \<Rightarrow> nat \<Rightarrow> nat \<times> response) \<Rightarrow> string \<Rightarrow> bool \<Rightarrow> nat
     \<Rightarrow> poll_state \<times> nat \<times> (js_error + json option)" where
  "pollJobCompletion backend jobId onProgress maxWaitMs =
     pollLoop (backend jobId) onProgress maxWaitMs 0 0 poll0"

section \<open>Starting a job\<close>

text \<open>
  The answer to a start request: \<open>response.ok\<close> and the fields read from its JSON body.
\<close>

record start_response =
  ok :: bool
  body_error :: "string option"
  body_message :: "string option"
  job_id :: "string option"

datatype pipeline = LLMVerification | FactCheck | KeyClaims | BiasCheck | LieDetection | Manipulation

fun failure_text :: "pipeline \<Rightarrow> string" where
  "failure_text LLMVerification = ''LLM verification failed''"
| "failure_text FactCheck = ''Fact check failed''"
| "failure_text KeyClaims = ''Key claims check failed''"
| "failure_text BiasCheck = ''Bias check failed''"
| "failure_text LieDetection = ''Lie detection failed''"
| "failure_text Manipulation = ''Manipulation check failed''"

text \<open>
  \<open>runLLMVerification\<close>, \<open>runFactCheck\<close>, \<open>runKeyClaimsCheck\<close>, \<open>runBiasCheck\<close>,
  \<open>runLieDetection\<close>, \<open>runManipulationCheck\<close>, from the answer of the start request to the
  job id that is stored in \<open>AppState.currentJobIds\<close> and handed to the stream
  (\<open>None\<close> is \<open>undefined\<close>).
\<close>

definition run_start :: "pipeline \<Rightarrow> start_response \<Rightarrow> js_error + string option" where
  "run_start kind response =
     (if \<not> ok response then Inl (new_Error (or_else (body_error response) (failure_text kind)))
      else Inr (job_id response))"

text \<open>\<open>fetchArticleFromUrl\<close>, from the answer of the start request to the job id that is polled.\<close>

definition fetchArticleFromUrl_start :: "start_response \<Rightarrow> js_error + string" where
  "fetchArticleFromUrl_start startResponse =
     (if \<not> ok startResponse then
        Inl (new_Error (or_else (body_error startResponse)
                          (or_else (body_message startResponse) ''Failed to start fetch'')))
      else if \<not> truthy (job_id startResponse) then Inl (new_Error ''No job ID returned'')
      else Inr (or_else (job_id startResponse) []))"

text \<open>The address of the stream that \<open>streamJobProgress\<close> opens for a job id.\<close>

definition stream_url :: "string option \<Rightarrow> string" where
  "stream_url jobId = ''/api/job/'' @ (case jobId of None \<Rightarrow> ''undefined'' | Some j \<Rightarrow> j) @ ''/stream''"

section \<open>processContent: the catch block\<close>

text \<open>The text given to \<open>showError\<close>, or \<open>None\<close> when the error is not displayed.\<close>

definition processContent_catch :: "js_error \<Rightarrow> string option" where
  "processContent_catch e =
     (if \<not> js_includes (err_message e) ''cancelled'' \<and> \<not> js_includes (err_message e) ''stopped''
      then Some (or_else (Some (err_message e)) ''An unexpected error occurred. Please try again.'')
      else None)"

section \<open>isValidUrl\<close>

text \<open>
  The \<open>URL\<close> constructor belongs to the browser: it is a parameter, \<open>None\<close> when it throws.
  The function reads the protocol of the parsed URL only.
\<close>

record url =
  protocol :: string
  href :: string

definition isValidUrl :: "(string \<Rightarrow> url option) \<Rightarrow> string \<Rightarrow> bool" where
  "isValidUrl new_URL string =
     (case new_URL string of
        Some u \<Rightarrow> protocol u = ''http:'' \<or> protocol u = ''https:''
      | None \<Rightarrow> False)"

section \<open>Example runs\<close>

text \<open>Servers and frames used to run the definitions on concrete inputs.\<close>

definition frame0 :: frame where
  "frame0 = \<lparr>heartbeat = None, status = None, message = None, error = None, result = None\<rparr>"

definition srv_down :: "string \<Rightarrow> nat \<Rightarrow> event list" where
  "srv_down jobId n = [Message (frame0\<lparr>heartbeat := Some True\<rparr>), ErrorEvent]"

definition srv_done :: "string \<Rightarrow> nat \<Rightarrow> event list" where
  "srv_done jobId n = [Message \<lparr>heartbeat = None, status = Some ''completed'', message = None,
      error = None, result = Some (JObj [(''score'', JNum 7)])\<rparr>]"

definition srv_retry :: "string \<Rightarrow> nat \<Rightarrow> event list" where
  "srv_retry jobId n =
     (if n = 0 then [Message \<lparr>heartbeat = None, status = None, message = Some ''fetching'',
                       error = None, result = None\<rparr>, ErrorEvent]
      else [Message \<lparr>heartbeat = None, status = Some ''completed'', message = None,
                       error = None, result = Some (JObj [(''score'', JNum 7)])\<rparr>])"

definition app_after_retry :: app where
  "app_after_retry = \<lparr>activeEventSources = [0, 1], nextSource = 2, closeCalls = [0, 1],
     progressCalls = [(''fetching'', ''info''),
       (warning_sign @ '' Connection lost. Reconnecting in 2s...'', ''info''),
       (hourglass @ '' Complete!'', ''info'')],
     timers = [2000]\<rparr>"

definition srv_beats :: "string \<Rightarrow> nat \<Rightarrow> event list" where
  "srv_beats jobId n = [Message (frame0\<lparr>heartbeat := Some True\<rparr>),
      Message (frame0\<lparr>heartbeat := Some True\<rparr>),
      Message (frame0\<lparr>status := Some ''completed'', result := Some (JObj [(''score'', JNum 7)])\<rparr>)]"

definition job0 :: job where
  "job0 = \<lparr>job_error = None, job_status = None, progress_log = None, job_result = None\<rparr>"

definition backend_three_running :: "string \<Rightarrow> nat \<Rightarrow> nat \<times> response" where
  "backend_three_running jobId n =
     (0, Json (if n < 3 then job0\<lparr>job_status := Some ''running''\<rparr>
               else job0\<lparr>job_status := Some ''completed'',
                   job_result := Some (JObj [(''success'', JBool True), (''content'', JStr ''X'')])\<rparr>))"

definition backend_const :: "job \<Rightarrow> string \<Rightarrow> nat \<Rightarrow> nat \<times> response" where
  "backend_const j jobId n = (0, Json j)"



definition backend_fetch_fails :: "string \<Rightarrow> nat \<Rightarrow> nat \<times> response" where
  "backend_fetch_fails jobId n = (0, FetchRejects (JsError ''TypeError'' ''Failed to fetch''))"

section \<open>The stream client: reconnection\<close>

lemma onmessage_nonterminal:
  "\<not> is_terminal data \<Longrightarrow> snd (onmessage emoji src data st) = None \<and> same_channels st (fst (onmessage emoji src data st))"
  by (auto simp: is_terminal_def onmessage_def same_channels_def addProgress_def Let_def)

lemma run_source_errors:
  "errors_out es \<Longrightarrow> same_channels st0 st \<Longrightarrow>
     snd (run_source emoji src es st) = Errored \<and> same_channels st0 (fst (run_source emoji src es st))"
proof (induction es arbitrary: st)
  case Nil
  then show ?case by simp
next
  case (Cons e es)
  show ?case
  proof (cases e)
    case (Message data)
    with Cons.prems have nt: "\<not> is_terminal data" and eo: "errors_out es" by simp_all
    obtain st' where om: "onmessage emoji src data st = (st', None)" and sc: "same_channels st st'"
      using onmessage_nonterminal [OF nt, of emoji src st] by (cases "onmessage emoji src data st") auto
    from sc Cons.prems(2) have "same_channels st0 st'" by (simp add: same_channels_def)
    from Cons.IH [OF eo this] show ?thesis using Message om by simp
  next
    case ErrorEvent
    with Cons.prems show ?thesis by simp
  qed
qed

lemma reconnect_step:
  assumes "errors_out (server jobId n)" and "n < maxReconnects"
  shows "\<exists>st2. streamJobProgress server jobId emoji n st = streamJobProgress server jobId emoji (Suc n) st2
      \<and> activeEventSources st2 = activeEventSources st @ [nextSource st]
      \<and> nextSource st2 = Suc (nextSource st)
      \<and> closeCalls st2 = closeCalls st @ [nextSource st]
      \<and> timers st2 = timers st @ [baseDelay * 2 ^ n]"
proof -
  let ?src = "nextSource st"
  let ?st0 = "push_source ?src (st\<lparr>nextSource := Suc ?src\<rparr>)"
  obtain st1 where rs: "run_source emoji ?src (server jobId n) ?st0 = (st1, Errored)"
    and sc: "same_channels ?st0 st1"
    using assms(1) run_source_errors [of "server jobId n" ?st0 ?st0 emoji ?src]
    by (cases "run_source emoji ?src (server jobId n) ?st0") (auto simp: same_channels_def)
  obtain st2 where oe: "onerror ?src n st1 = (st2, Inl (baseDelay * 2 ^ n))"
     and f: "activeEventSources st2 = activeEventSources st1" "nextSource st2 = nextSource st1"
      "closeCalls st2 = closeCalls st1 @ [?src]" "timers st2 = timers st1 @ [baseDelay * 2 ^ n]"
    using assms(2) by (simp add: onerror_def Let_def setTimeout_def addProgress_def close_def)
  have "streamJobProgress server jobId emoji n st = streamJobProgress server jobId emoji (Suc n) st2"
    by (subst streamJobProgress.simps) (simp add: new_EventSource_def rs oe)
  then show ?thesis using f sc by (auto simp: same_channels_def push_source_def)
qed

lemma exhausted_step:
  assumes "errors_out (server jobId n)" and "\<not> n < maxReconnects"
  shows "\<exists>st2. streamJobProgress server jobId emoji n st = (st2, Rejected (new_Error ''Stream connection failed after retries''))
      \<and> activeEventSources st2 = activeEventSources st @ [nextSource st]
      \<and> nextSource st2 = Suc (nextSource st)
      \<and> closeCalls st2 = closeCalls st @ [nextSource st]
      \<and> timers st2 = timers st"
proof -
  let ?src = "nextSource st"
  let ?st0 = "push_source ?src (st\<lparr>nextSource := Suc ?src\<rparr>)"
  obtain st1 where rs: "run_source emoji ?src (server jobId n) ?st0 = (st1, Errored)"
    and sc: "same_channels ?st0 st1"
    using assms(1) run_source_errors [of "server jobId n" ?st0 ?st0 emoji ?src]
    by (cases "run_source emoji ?src (server jobId n) ?st0") (auto simp: same_channels_def)
  obtain st2 where oe: "onerror ?src n st1 = (st2, Inr (new_Error ''Stream connection failed after retries''))"
     and f: "activeEventSources st2 = activeEventSources st1" "nextSource st2 = nextSource st1"
      "closeCalls st2 = closeCalls st1 @ [?src]" "timers st2 = timers st1"
    using assms(2) by (simp add: onerror_def Let_def setTimeout_def addProgress_def close_def)
  have "streamJobProgress server jobId emoji n st = (st2, Rejected (new_Error ''Stream connection failed after retries''))"
    by (subst streamJobProgress.simps) (simp add: new_EventSource_def rs oe)
  then show ?thesis using f sc by (auto simp: same_channels_def push_source_def)
qed

text \<open>
  C1. When every connection of one reconnection chain runs into \<open>onerror\<close> (the first one
  and the three reconnections), the promise returned by \<open>streamJobProgress\<close> is rejected
  with the error \<open>Stream connection failed after retries\<close>. Exactly three reconnections
  are scheduled, with delays of 2000, 4000 and 8000 ms; four sources are opened and each
  is closed. A single error below the ceiling does not reject: it only schedules the
  reconnection, with delay \<open>2000 * 2 ^ n\<close> after \<open>n\<close> earlier attempts.
\<close>

theorem stream_exhausted:
  assumes "\<forall>n\<le>maxReconnects. errors_out (server jobId n)"
  shows "snd (streamJobProgress server jobId emoji 0 st) = Rejected (new_Error ''Stream connection failed after retries'')
     \<and> timers (fst (streamJobProgress server jobId emoji 0 st)) = timers st @ [2000, 4000, 8000]
     \<and> activeEventSources (fst (streamJobProgress server jobId emoji 0 st)) =
         activeEventSources st @ [nextSource st, nextSource st + 1, nextSource st + 2, nextSource st + 3]
     \<and> closeCalls (fst (streamJobProgress server jobId emoji 0 st)) =
         closeCalls st @ [nextSource st, nextSource st + 1, nextSource st + 2, nextSource st + 3]
     \<and> (\<forall>n src s. n < maxReconnects \<longrightarrow> snd (onerror src n s) = Inl (2000 * 2 ^ n))"
proof -
  have e: "errors_out (server jobId 0)" "errors_out (server jobId (Suc 0))"
    "errors_out (server jobId (Suc (Suc 0)))" "errors_out (server jobId (Suc (Suc (Suc 0))))"
    using assms by (simp_all add: maxReconnects_def)
  obtain s1 where s1: "streamJobProgress server jobId emoji 0 st = streamJobProgress server jobId emoji (Suc 0) s1"
    "activeEventSources s1 = activeEventSources st @ [nextSource st]" "nextSource s1 = Suc (nextSource st)"
    "closeCalls s1 = closeCalls st @ [nextSource st]" "timers s1 = timers st @ [baseDelay * 2 ^ 0]"
    using e(1) reconnect_step [of server jobId 0 emoji st] by (auto simp: maxReconnects_def)
  obtain s2 where s2: "streamJobProgress server jobId emoji (Suc 0) s1 = streamJobProgress server jobId emoji (Suc (Suc 0)) s2"
    "activeEventSources s2 = activeEventSources s1 @ [nextSource s1]" "nextSource s2 = Suc (nextSource s1)"
    "closeCalls s2 = closeCalls s1 @ [nextSource s1]" "timers s2 = timers s1 @ [baseDelay * 2 ^ Suc 0]"
    using e(2) reconnect_step [of server jobId "Suc 0" emoji s1] by (auto simp: maxReconnects_def)
  obtain s3 where s3: "streamJobProgress server jobId emoji (Suc (Suc 0)) s2 = streamJobProgress server jobId emoji (Suc (Suc (Suc 0))) s3"
    "activeEventSources s3 = activeEventSources s2 @ [nextSource s2]" "nextSource s3 = Suc (nextSource s2)"
    "closeCalls s3 = closeCalls s2 @ [nextSource s2]" "timers s3 = timers s2 @ [baseDelay * 2 ^ Suc (Suc 0)]"
    using e(3) reconnect_step [of server jobId "Suc (Suc 0)" emoji s2] by (auto simp: maxReconnects_def)
  obtain s4 where s4: "streamJobProgress server jobId emoji (Suc (Suc (Suc 0))) s3 = (s4, Rejected (new_Error ''Stream connection failed after retries''))"
    "activeEventSources s4 = activeEventSources s3 @ [nextSource s3]" "nextSource s4 = Suc (nextSource s3)"
    "closeCalls s4 = closeCalls s3 @ [nextSource s3]" "timers s4 = timers s3"
    using e(4) exhausted_step [of server jobId "Suc (Suc (Suc 0))" emoji s3] by (auto simp: maxReconnects_def)
  have r: "streamJobProgress server jobId emoji 0 st = (s4, Rejected (new_Error ''Stream connection failed after retries''))"
    using s1(1) s2(1) s3(1) s4(1) by simp
  have o: "\<forall>n src s. n < maxReconnects \<longrightarrow> snd (onerror src n s) = Inl (2000 * 2 ^ n)"
    by (simp add: onerror_def Let_def baseDelay_def)
  show ?thesis
    using o by (simp add: r s1 s2 s3 s4 baseDelay_def)
qed

text \<open>A server on which every connection delivers one heartbeat and then fails.\<close>

theorem stream_exhausted_witness:
  "list_all (\<lambda>n. errors_out (srv_down ''job-1'' n)) [0, 1, 2, 3]
   \<and> snd (streamJobProgress srv_down ''job-1'' hourglass 0 app0)
       = Rejected (new_Error ''Stream connection failed after retries'')
   \<and> timers (fst (streamJobProgress srv_down ''job-1'' hourglass 0 app0)) = [2000, 4000, 8000]
   \<and> activeEventSources (fst (streamJobProgress srv_down ''job-1'' hourglass 0 app0)) = [0, 1, 2, 3]
   \<and> closeCalls (fst (streamJobProgress srv_down ''job-1'' hourglass 0 app0)) = [0, 1, 2, 3]
   \<and> snd (onerror 0 2 app0) = Inl 8000"
  using stream_exhausted [of srv_down "''job-1''" hourglass app0]
  by (simp add: app0_def srv_down_def frame0_def is_terminal_def maxReconnects_def)

section \<open>Polling: one turn of the loop\<close>

lemma poll_try_fetchTimes: "fetchTimes (fst (poll_try onProgress job ps)) = fetchTimes ps"
  by (simp add: poll_try_def Let_def split: option.splits)

lemma poll_try_running:
  "job_status job = Some ''running'' \<Longrightarrow> snd (poll_try onProgress job ps) = Wait"
  by (simp add: poll_try_def Let_def)

lemma poll_try_completed:
  "job_status job = Some ''completed'' \<Longrightarrow> snd (poll_try onProgress job ps) = Return (job_result job)"
  by (simp add: poll_try_def Let_def)

lemma pollLoop_wait:
  assumes "elapsed < maxWaitMs" and "backend n = (latency, Json job)"
    and "snd (poll_try onProgress job (ps\<lparr>fetchTimes := fetchTimes ps @ [elapsed]\<rparr>)) = Wait"
  shows "pollLoop backend onProgress maxWaitMs n elapsed ps =
     pollLoop backend onProgress maxWaitMs (Suc n) (elapsed + latency + pollInterval)
       (fst (poll_try onProgress job (ps\<lparr>fetchTimes := fetchTimes ps @ [elapsed]\<rparr>)))"
  using assms
  by (subst pollLoop.simps)
     (cases "poll_try onProgress job (ps\<lparr>fetchTimes := fetchTimes ps @ [elapsed]\<rparr>)", simp add: Let_def)

lemma pollLoop_return:
  assumes "elapsed < maxWaitMs" and "backend n = (latency, Json job)"
    and "snd (poll_try onProgress job (ps\<lparr>fetchTimes := fetchTimes ps @ [elapsed]\<rparr>)) = Return v"
  shows "pollLoop backend onProgress maxWaitMs n elapsed ps =
     (fst (poll_try onProgress job (ps\<lparr>fetchTimes := fetchTimes ps @ [elapsed]\<rparr>)), elapsed + latency, Inr v)"
  using assms
  by (subst pollLoop.simps)
     (cases "poll_try onProgress job (ps\<lparr>fetchTimes := fetchTimes ps @ [elapsed]\<rparr>)", simp add: Let_def)

lemma pollLoop_throw:
  assumes "elapsed < maxWaitMs" and "backend n = (latency, Json job)"
    and "snd (poll_try onProgress job (ps\<lparr>fetchTimes := fetchTimes ps @ [elapsed]\<rparr>)) = Throw e"
  shows "pollLoop backend onProgress maxWaitMs n elapsed ps =
     (fst (poll_try onProgress job (ps\<lparr>fetchTimes := fetchTimes ps @ [elapsed]\<rparr>)), elapsed + latency,
      Inl (poll_catch e))"
  using assms
  by (subst pollLoop.simps)
     (cases "poll_try onProgress job (ps\<lparr>fetchTimes := fetchTimes ps @ [elapsed]\<rparr>)", simp add: Let_def)

lemma pollLoop_running:
  assumes "elapsed < maxWaitMs" and "snd (backend n) = Json job" and "job_status job = Some ''running''"
  shows "\<exists>ps'. pollLoop backend onProgress maxWaitMs n elapsed ps =
       pollLoop backend onProgress maxWaitMs (Suc n) (elapsed + fst (backend n) + pollInterval) ps'
     \<and> fetchTimes ps' = fetchTimes ps @ [elapsed]"
proof -
  let ?ps0 = "ps\<lparr>fetchTimes := fetchTimes ps @ [elapsed]\<rparr>"
  have b: "backend n = (fst (backend n), Json job)" using assms(2) by (cases "backend n") simp
  have "pollLoop backend onProgress maxWaitMs n elapsed ps =
     pollLoop backend onProgress maxWaitMs (Suc n) (elapsed + fst (backend n) + pollInterval)
       (fst (poll_try onProgress job ?ps0))"
    using assms(1) b poll_try_running [OF assms(3), of onProgress ?ps0]
      pollLoop_wait [where backend = backend and n = n and job = job and elapsed = elapsed
        and maxWaitMs = maxWaitMs and latency = "fst (backend n)" and onProgress = onProgress and ps = ps]
    by simp
  moreover have "fetchTimes (fst (poll_try onProgress job ?ps0)) = fetchTimes ps @ [elapsed]"
    by (simp add: poll_try_fetchTimes)
  ultimately show ?thesis by blast
qed


lemma new_Error_name: "err_name (new_Error m) = ''Error''"
  by (simp add: new_Error_def)

lemma poll_catch_cancelled: "poll_catch (new_Error ''Job was cancelled'') = new_Error ''Job was cancelled''"
  by (simp add: poll_catch_def new_Error_def js_includes_def sublist_Cons_right)

lemma poll_try_throws_Error:
  "poll_try onProgress job ps = (ps', Throw e) \<Longrightarrow> err_name e = ''Error''"
  by (auto simp: poll_try_def Let_def new_Error_def split: if_splits)

lemma poll_catch_kind:
  "err_name e = ''Error'' \<Longrightarrow> err_name (poll_catch e) = ''Error''"
  by (simp add: poll_catch_def new_Error_def)

lemma pollLoop_error_kind:
  "snd (snd (pollLoop backend onProgress maxWaitMs n elapsed ps)) = Inl x \<Longrightarrow>
     err_name x = ''Error'' \<or> (\<exists>k lat. backend k = (lat, FetchRejects x))"
proof (induction backend onProgress maxWaitMs n elapsed ps rule: pollLoop.induct)
  case (1 backend onProgress maxWaitMs n elapsed ps)
  show ?case
  proof (cases "elapsed < maxWaitMs")
    case False
    with "1.prems" show ?thesis
      by (subst (asm) pollLoop.simps) (auto simp: new_Error_def)
  next
    case True
    obtain latency r where b: "backend n = (latency, r)" by (cases "backend n")
    let ?ps0 = "ps\<lparr>fetchTimes := fetchTimes ps @ [elapsed]\<rparr>"
    show ?thesis
    proof (cases r)
      case (FetchRejects e)
      with True b "1.prems" have "x = poll_catch e"
        by (subst (asm) pollLoop.simps) (simp add: Let_def)
      then have "err_name x = ''Error'' \<or> x = e"
        by (simp add: poll_catch_def new_Error_def)
      with b FetchRejects show ?thesis by blast
    next
      case (Json job)
      obtain ps1 step where pt: "poll_try onProgress job ?ps0 = (ps1, step)"
        by (cases "poll_try onProgress job ?ps0")
      show ?thesis
      proof (cases step)
        case (Return v)
        with True b Json pt "1.prems" show ?thesis
          by (subst (asm) pollLoop.simps) (simp add: Let_def)
      next
        case (Throw e)
        with True b Json pt "1.prems" have "x = poll_catch e"
          by (subst (asm) pollLoop.simps) (simp add: Let_def)
        with poll_try_throws_Error [of onProgress job ?ps0 ps1 e] pt Throw poll_catch_kind [of e]
        show ?thesis by simp
      next
        case Wait
        with True b Json pt "1.prems"
        have "snd (snd (pollLoop backend onProgress maxWaitMs (Suc n) (elapsed + latency + pollInterval) ps1)) = Inl x"
          by (subst (asm) pollLoop.simps) (simp add: Let_def)
        from "1.IH" [OF True b [symmetric] refl refl Json pt [symmetric] Wait this]
        show ?thesis .
      qed
    qed
  qed
qed

section \<open>Failed and cancelled jobs\<close>

text \<open>
  C2, as the code has it. In both transports a \<open>failed\<close> and a \<open>cancelled\<close> job reject
  the caller with a plain \<open>Error\<close>, the same kind for both. In the stream (on a frame
  that is not a heartbeat), the failure has the message \<open>data.error || 'Job failed'\<close>
  and the cancellation \<open>Job cancelled by user\<close>. In the poll, the failure has the message
  \<open>job.error || 'Job failed'\<close>, replaced by \<open>Job expired or not found\<close> when that text
  contains \<open>Job not found\<close>, and the cancellation \<open>Job was cancelled\<close>.
  \<open>processContent\<close> leaves an error out of the error display exactly when its message
  contains \<open>cancelled\<close> or \<open>stopped\<close>, whatever its kind; this holds for the stream
  client's cancellation error.
\<close>

theorem failed_and_cancelled_reject:
  "(heartbeat data \<noteq> Some True \<and> status data = Some ''failed'' \<longrightarrow>
      snd (onmessage emoji src data st) = Some (Reject (new_Error (or_else (error data) ''Job failed''))))
   \<and> (heartbeat data \<noteq> Some True \<and> status data = Some ''cancelled'' \<longrightarrow>
      snd (onmessage emoji src data st) = Some (Reject (new_Error ''Job cancelled by user'')))
   \<and> (elapsed < maxWaitMs \<and> backend n = (latency, Json job) \<and> job_status job = Some ''failed'' \<longrightarrow>
      snd (snd (pollLoop backend onProgress maxWaitMs n elapsed ps))
        = Inl (if js_includes (or_else (job_error job) ''Job failed'') ''Job not found''
               then new_Error ''Job expired or not found''
               else new_Error (or_else (job_error job) ''Job failed'')))
   \<and> (elapsed < maxWaitMs \<and> backend n = (latency, Json job) \<and> job_status job = Some ''cancelled'' \<longrightarrow>
      snd (snd (pollLoop backend onProgress maxWaitMs n elapsed ps))
        = Inl (new_Error ''Job was cancelled''))
   \<and> err_name (new_Error m) = ''Error''
   \<and> (processContent_catch e = None
        \<longleftrightarrow> js_includes (err_message e) ''cancelled'' \<or> js_includes (err_message e) ''stopped'')
   \<and> processContent_catch (new_Error ''Job cancelled by user'') = None"
proof (intro conjI impI)
  assume "heartbeat data \<noteq> Some True \<and> status data = Some ''failed''"
  then show "snd (onmessage emoji src data st)
      = Some (Reject (new_Error (or_else (error data) ''Job failed'')))"
    by (simp add: onmessage_def)
next
  assume "heartbeat data \<noteq> Some True \<and> status data = Some ''cancelled''"
  then show "snd (onmessage emoji src data st) = Some (Reject (new_Error ''Job cancelled by user''))"
    by (simp add: onmessage_def)
next
  assume a: "elapsed < maxWaitMs \<and> backend n = (latency, Json job) \<and> job_status job = Some ''failed''"
  let ?ps0 = "ps\<lparr>fetchTimes := fetchTimes ps @ [elapsed]\<rparr>"
  from a have "snd (poll_try onProgress job ?ps0) = Throw (new_Error (or_else (job_error job) ''Job failed''))"
    by (simp add: poll_try_def Let_def)
  with a pollLoop_throw [where backend = backend and n = n and job = job and elapsed = elapsed
        and maxWaitMs = maxWaitMs and latency = latency and onProgress = onProgress and ps = ps
        and e = "new_Error (or_else (job_error job) ''Job failed'')"]
  show "snd (snd (pollLoop backend onProgress maxWaitMs n elapsed ps))
        = Inl (if js_includes (or_else (job_error job) ''Job failed'') ''Job not found''
               then new_Error ''Job expired or not found''
               else new_Error (or_else (job_error job) ''Job failed''))"
    by (simp add: poll_catch_def new_Error_def)
next
  assume a: "elapsed < maxWaitMs \<and> backend n = (latency, Json job) \<and> job_status job = Some ''cancelled''"
  let ?ps0 = "ps\<lparr>fetchTimes := fetchTimes ps @ [elapsed]\<rparr>"
  from a have "snd (poll_try onProgress job ?ps0) = Throw (new_Error ''Job was cancelled'')"
    by (simp add: poll_try_def Let_def)
  with a pollLoop_throw [where backend = backend and n = n and job = job and elapsed = elapsed
        and maxWaitMs = maxWaitMs and latency = latency and onProgress = onProgress and ps = ps
        and e = "new_Error ''Job was cancelled''"]
  show "snd (snd (pollLoop backend onProgress maxWaitMs n elapsed ps))
        = Inl (new_Error ''Job was cancelled'')"
    by (simp add: poll_catch_cancelled)
next
  show "err_name (new_Error m) = ''Error''" by (rule new_Error_name)
next
  show "processContent_catch e = None
        \<longleftrightarrow> js_includes (err_message e) ''cancelled'' \<or> js_includes (err_message e) ''stopped''"
    by (auto simp: processContent_catch_def)
next
  show "processContent_catch (new_Error ''Job cancelled by user'') = None"
    by (simp add: processContent_catch_def new_Error_def js_includes_def sublist_Cons_right)
qed

text \<open>
  One failed and one cancelled job in each transport, and a failed job whose text is remapped.
\<close>

theorem failed_and_cancelled_reject_witness:
  "snd (onmessage hourglass 0 (frame0\<lparr>status := Some ''failed'', error := Some ''Model timed out''\<rparr>) app0)
      = Some (Reject (JsError ''Error'' ''Model timed out''))
   \<and> snd (onmessage hourglass 0 (frame0\<lparr>status := Some ''cancelled''\<rparr>) app0)
      = Some (Reject (JsError ''Error'' ''Job cancelled by user''))
   \<and> snd (snd (pollLoop (backend_const (job0\<lparr>job_status := Some ''failed''\<rparr>) ''job-1'') False 120000 0 0 poll0))
      = Inl (JsError ''Error'' ''Job failed'')
   \<and> snd (snd (pollLoop (backend_const (job0\<lparr>job_status := Some ''failed'',
          job_error := Some ''Job not found in queue''\<rparr>) ''job-1'') False 120000 0 0 poll0))
      = Inl (JsError ''Error'' ''Job expired or not found'')
   \<and> snd (snd (pollLoop (backend_const (job0\<lparr>job_status := Some ''cancelled''\<rparr>) ''job-1'') False 120000 0 0 poll0))
      = Inl (JsError ''Error'' ''Job was cancelled'')
   \<and> processContent_catch (JsError ''Error'' ''Job cancelled by user'') = None"
proof -
  have a: "snd (onmessage hourglass 0 (frame0\<lparr>status := Some ''failed'', error := Some ''Model timed out''\<rparr>) app0)
      = Some (Reject (JsError ''Error'' ''Model timed out''))"
    using failed_and_cancelled_reject [where data = "frame0\<lparr>status := Some ''failed'', error := Some ''Model timed out''\<rparr>"
        and emoji = hourglass and src = 0 and st = app0]
    by (simp add: frame0_def new_Error_def)
  have b: "snd (onmessage hourglass 0 (frame0\<lparr>status := Some ''cancelled''\<rparr>) app0)
      = Some (Reject (JsError ''Error'' ''Job cancelled by user''))"
    using failed_and_cancelled_reject [where data = "frame0\<lparr>status := Some ''cancelled''\<rparr>"
        and emoji = hourglass and src = 0 and st = app0]
    by (simp add: frame0_def new_Error_def)
  have c: "snd (snd (pollLoop (backend_const (job0\<lparr>job_status := Some ''failed''\<rparr>) ''job-1'') False 120000 0 0 poll0))
      = Inl (JsError ''Error'' ''Job failed'')"
    using failed_and_cancelled_reject [where job = "job0\<lparr>job_status := Some ''failed''\<rparr>"
        and backend = "backend_const (job0\<lparr>job_status := Some ''failed''\<rparr>) ''job-1''"
        and n = 0 and elapsed = 0 and maxWaitMs = 120000 and latency = 0 and ps = poll0 and onProgress = False]
    by (simp add: job0_def backend_const_def new_Error_def js_includes_def sublist_Cons_right)
  have c': "snd (snd (pollLoop (backend_const (job0\<lparr>job_status := Some ''failed'',
          job_error := Some ''Job not found in queue''\<rparr>) ''job-1'') False 120000 0 0 poll0))
      = Inl (JsError ''Error'' ''Job expired or not found'')"
    using failed_and_cancelled_reject [where job = "job0\<lparr>job_status := Some ''failed'',
          job_error := Some ''Job not found in queue''\<rparr>"
        and backend = "backend_const (job0\<lparr>job_status := Some ''failed'',
          job_error := Some ''Job not found in queue''\<rparr>) ''job-1''"
        and n = 0 and elapsed = 0 and maxWaitMs = 120000 and latency = 0 and ps = poll0 and onProgress = False]
    by (simp add: job0_def backend_const_def new_Error_def js_includes_def sublist_Cons_right)
  have d: "snd (snd (pollLoop (backend_const (job0\<lparr>job_status := Some ''cancelled''\<rparr>) ''job-1'') False 120000 0 0 poll0))
      = Inl (JsError ''Error'' ''Job was cancelled'')"
    using failed_and_cancelled_reject [where job = "job0\<lparr>job_status := Some ''cancelled''\<rparr>"
        and backend = "backend_const (job0\<lparr>job_status := Some ''cancelled''\<rparr>) ''job-1''"
        and n = 0 and elapsed = 0 and maxWaitMs = 120000 and latency = 0 and ps = poll0 and onProgress = False]
    by (simp add: job0_def backend_const_def new_Error_def)
  have e: "processContent_catch (JsError ''Error'' ''Job cancelled by user'') = None"
    using failed_and_cancelled_reject [where e = "JsError ''Error'' ''Job cancelled by user''"]
    by (simp add: new_Error_def)
  from a b c c' d e show ?thesis by simp
qed

text \<open>
  C2 as stated fails: the errors of a failed and of a cancelled job have the same kind,
  and the display is decided by the message text: a failure whose text contains
  \<open>cancelled\<close> is suppressed, another error of the same kind is shown.
\<close>

theorem failure_suppressed_by_message_text:
  "snd (onmessage hourglass 0 (frame0\<lparr>status := Some ''failed'', error := Some ''Upload cancelled by peer''\<rparr>) app0)
      = Some (Reject (JsError ''Error'' ''Upload cancelled by peer''))
   \<and> snd (onmessage hourglass 0 (frame0\<lparr>status := Some ''cancelled''\<rparr>) app0)
      = Some (Reject (JsError ''Error'' ''Job cancelled by user''))
   \<and> processContent_catch (JsError ''Error'' ''Upload cancelled by peer'') = None
   \<and> processContent_catch (JsError ''Error'' ''Job failed'') = Some ''Job failed''"
  by (simp add: onmessage_def frame0_def new_Error_def processContent_catch_def js_includes_def
        sublist_Cons_right)

section \<open>The stream client: tracking of sources\<close>

lemma onmessage_channels:
  "onmessage emoji src data st = (st', r) \<Longrightarrow>
     activeEventSources st' = activeEventSources st \<and> nextSource st' = nextSource st
     \<and> timers st' = timers st
     \<and> closeCalls st' = closeCalls st @ (case r of None \<Rightarrow> [] | Some s \<Rightarrow> [src])"
  by (auto simp: onmessage_def addProgress_def close_def Let_def split: if_splits)

lemma run_source_channels:
  "run_source emoji src es st = (st', e) \<Longrightarrow>
     activeEventSources st' = activeEventSources st \<and> nextSource st' = nextSource st
     \<and> timers st' = timers st
     \<and> closeCalls st' = closeCalls st @ (case e of Settled s \<Rightarrow> [src] | _ \<Rightarrow> [])"
proof (induction es arbitrary: st)
  case Nil
  then show ?case by auto
next
  case (Cons ev es)
  show ?case
  proof (cases ev)
    case (Message data)
    obtain st1 r where om: "onmessage emoji src data st = (st1, r)"
      by (cases "onmessage emoji src data st")
    note ch = onmessage_channels [OF om]
    show ?thesis
    proof (cases r)
      case None
      with Cons.prems Message om have "run_source emoji src es st1 = (st', e)" by simp
      from Cons.IH [OF this] ch None show ?thesis by simp
    next
      case (Some s)
      with Cons.prems Message om have "st' = st1" "e = Settled s" by simp_all
      with ch Some show ?thesis by simp
    qed
  next
    case ErrorEvent
    with Cons.prems show ?thesis by auto
  qed
qed

lemma onerror_channels:
  "onerror src n st = (st', d) \<Longrightarrow>
     activeEventSources st' = activeEventSources st \<and> nextSource st' = nextSource st
     \<and> closeCalls st' = closeCalls st @ [src]"
  by (auto simp: onerror_def addProgress_def close_def setTimeout_def Let_def split: if_splits)

lemma upt_snoc_first: "a < b \<Longrightarrow> [a] @ [Suc a..<b] = [a..<b]"
  by (simp add: upt_conv_Cons)

text \<open>
  C3, as the code has it. Every source that a call of \<open>streamJobProgress\<close> opens (the
  first one and those of its reconnections) is appended to \<open>activeEventSources\<close> when it
  is opened and stays there: the stream client never removes an entry. Once the promise
  is settled, \<open>close()\<close> has been called exactly once on each of these sources, in the
  order in which they were opened.
\<close>

theorem channels_stay_tracked:
  "streamJobProgress server jobId emoji n st = (st', out) \<Longrightarrow>
     nextSource st < nextSource st'
     \<and> activeEventSources st' = activeEventSources st @ [nextSource st..<nextSource st']
     \<and> (out \<noteq> Pending \<longrightarrow> closeCalls st' = closeCalls st @ [nextSource st..<nextSource st'])"
proof (induction server jobId emoji n st arbitrary: st' out rule: streamJobProgress.induct)
  case (1 server jobId emoji n st)
  let ?src = "nextSource st"
  let ?st0 = "st\<lparr>nextSource := Suc ?src\<rparr>"
  obtain st1 e where rs: "run_source emoji ?src (server jobId n) (push_source ?src ?st0) = (st1, e)"
    by (cases "run_source emoji ?src (server jobId n) (push_source ?src ?st0)")
  from run_source_channels [OF rs]
  have ch1: "activeEventSources st1 = activeEventSources st @ [?src]" "nextSource st1 = Suc ?src"
    "closeCalls st1 = closeCalls st @ (case e of Settled s \<Rightarrow> [?src] | _ \<Rightarrow> [])"
    by (simp_all add: push_source_def)
  have unf: "streamJobProgress server jobId emoji n st =
      (case e of StillOpen \<Rightarrow> (st1, Pending) | Settled s \<Rightarrow> (st1, settled s)
       | Errored \<Rightarrow> (case onerror ?src n st1 of
             (st2, Inl delay) \<Rightarrow> streamJobProgress server jobId emoji (Suc n) st2
           | (st2, Inr e) \<Rightarrow> (st2, Rejected e)))"
    by (subst streamJobProgress.simps) (simp add: new_EventSource_def rs)
  show ?case
  proof (cases e)
    case StillOpen
    with unf "1.prems" have "st' = st1" "out = Pending" by simp_all
    with ch1 show ?thesis by simp
  next
    case (Settled s)
    with unf "1.prems" have "st' = st1" by simp
    with ch1 Settled show ?thesis by simp
  next
    case Errored
    obtain st2 d where oe: "onerror ?src n st1 = (st2, d)" by (cases "onerror ?src n st1")
    from onerror_channels [OF oe] ch1 Errored
    have ch2: "activeEventSources st2 = activeEventSources st @ [?src]" "nextSource st2 = Suc ?src"
      "closeCalls st2 = closeCalls st @ [?src]" by simp_all
    show ?thesis
    proof (cases d)
      case (Inl delay)
      with unf Errored oe "1.prems"
      have rec: "streamJobProgress server jobId emoji (n + 1) st2 = (st', out)" by simp
      have "new_EventSource st = (?src, ?st0)" by (simp add: new_EventSource_def)
      from "1.IH" [OF this [symmetric] rs [symmetric] Errored oe [symmetric] Inl rec]
      have ih: "nextSource st2 < nextSource st'"
        "activeEventSources st' = activeEventSources st2 @ [nextSource st2..<nextSource st']"
        "out \<noteq> Pending \<longrightarrow> closeCalls st' = closeCalls st2 @ [nextSource st2..<nextSource st']"
        by simp_all
      from ih(1) ch2(2) have lt: "?src < nextSource st'" by simp
      from ih ch2 upt_snoc_first [OF lt] show ?thesis by (simp add: lt)
    next
      case (Inr err)
      with unf Errored oe "1.prems" have "st' = st2" "out = Rejected err" by simp_all
      with ch2 show ?thesis by simp
    qed
  qed
qed



text \<open>
  C3 as stated fails: after a \<open>completed\<close> frame the promise is resolved and the source
  is closed, and the source is still an element of \<open>activeEventSources\<close>.
\<close>

theorem settled_channel_still_tracked:
  "streamJobProgress srv_done ''job-1'' hourglass 0 app0 =
     (\<lparr>activeEventSources = [0], nextSource = 1, closeCalls = [0],
       progressCalls = [(hourglass @ '' Complete!'', ''info'')], timers = []\<rparr>,
      Resolved (Some (JObj [(''score'', JNum 7)])))"
  by (subst streamJobProgress.simps)
     (simp add: new_EventSource_def push_source_def srv_done_def app0_def
       onmessage_def addProgress_def close_def)

text \<open>
  A run with one reconnection: both sources are tracked and closed when the job completes.
\<close>

theorem channels_stay_tracked_witness:
  "streamJobProgress srv_retry ''job-1'' hourglass 0 app0
     = (app_after_retry, Resolved (Some (JObj [(''score'', JNum 7)])))
   \<and> nextSource app0 < nextSource app_after_retry
   \<and> activeEventSources app_after_retry = [0, 1]
   \<and> closeCalls app_after_retry = [0, 1]"
proof -
  have ev: "streamJobProgress srv_retry ''job-1'' hourglass 0 app0
     = (app_after_retry, Resolved (Some (JObj [(''score'', JNum 7)])))"
    apply (subst streamJobProgress.simps)
    apply (simp add: new_EventSource_def push_source_def srv_retry_def app0_def
       onmessage_def onerror_def addProgress_def close_def setTimeout_def
       maxReconnects_def baseDelay_def show_nat.simps digit_char_def Let_def)
    apply (subst streamJobProgress.simps)
    apply (simp add: new_EventSource_def push_source_def srv_retry_def app_after_retry_def
       onmessage_def onerror_def addProgress_def close_def setTimeout_def)
    done
  from channels_stay_tracked [OF ev] ev show ?thesis
    by (simp add: app0_def app_after_retry_def)
qed

section \<open>Polling: three running polls, then completed\<close>

text \<open>
  C4. The request number \<open>n + 1\<close> is issued \<open>pollInterval = 1000\<close> ms after the answer
  to request \<open>n\<close> was handled. When the first three answers have status \<open>running\<close> and
  the fourth has status \<open>completed\<close> with result \<open>r\<close>, and \<open>maxWaitMs\<close> is not reached by
  then, \<open>pollJobCompletion\<close> resolves with exactly \<open>r\<close>, after four requests and three
  waits: at 3000 ms plus the time the requests took.
\<close>

theorem poll_three_running_then_completed:
  assumes run: "\<forall>n<3. \<exists>j. snd (backend jobId n) = Json j \<and> job_status j = Some ''running''"
    and fin: "\<exists>j. snd (backend jobId 3) = Json j \<and> job_status j = Some ''completed'' \<and> job_result j = r"
    and tm: "3000 + fst (backend jobId 0) + fst (backend jobId 1) + fst (backend jobId 2) < maxWaitMs"
  shows "snd (snd (pollJobCompletion backend jobId onProgress maxWaitMs)) = Inr r
     \<and> fetchTimes (fst (pollJobCompletion backend jobId onProgress maxWaitMs)) =
         [0, 1000 + fst (backend jobId 0),
          2000 + fst (backend jobId 0) + fst (backend jobId 1),
          3000 + fst (backend jobId 0) + fst (backend jobId 1) + fst (backend jobId 2)]
     \<and> fst (snd (pollJobCompletion backend jobId onProgress maxWaitMs)) =
         3000 + fst (backend jobId 0) + fst (backend jobId 1) + fst (backend jobId 2)
           + fst (backend jobId 3)"
proof -
  let ?b = "backend jobId"
  let ?l0 = "fst (?b 0)" and ?l1 = "fst (?b 1)" and ?l2 = "fst (?b 2)" and ?l3 = "fst (?b 3)"
  let ?L = "pollLoop ?b onProgress maxWaitMs"
  from run obtain j0 j1 j2 where
    j0: "snd (?b 0) = Json j0" "job_status j0 = Some ''running''" and
    j1: "snd (?b (Suc 0)) = Json j1" "job_status j1 = Some ''running''" and
    j2: "snd (?b (Suc (Suc 0))) = Json j2" "job_status j2 = Some ''running''"
    by (metis One_nat_def Suc_1 lessI numeral_3_eq_3 zero_less_Suc less_SucI)
  from fin obtain j3 where
    j3: "snd (?b (Suc (Suc (Suc 0)))) = Json j3" "job_status j3 = Some ''completed''" "job_result j3 = r"
    by (auto simp: numeral_3_eq_3)
  have n1: "?b 1 = ?b (Suc 0)" and n2: "?b 2 = ?b (Suc (Suc 0))" and n3: "?b 3 = ?b (Suc (Suc (Suc 0)))"
    by (simp_all add: numeral_2_eq_2 numeral_3_eq_3)
  have t0: "0 < maxWaitMs" using tm by simp
  obtain p1 where s1: "?L 0 0 poll0 = ?L (Suc 0) (0 + ?l0 + pollInterval) p1"
    and f1: "fetchTimes p1 = fetchTimes poll0 @ [0]"
    using t0 j0 pollLoop_running [where backend = "?b" and n = 0 and job = j0 and elapsed = 0
      and maxWaitMs = maxWaitMs and onProgress = onProgress and ps = poll0] by blast
  have t1: "0 + ?l0 + pollInterval < maxWaitMs" using tm by (simp add: pollInterval_def)
  obtain p2 where s2: "?L (Suc 0) (0 + ?l0 + pollInterval) p1
        = ?L (Suc (Suc 0)) (0 + ?l0 + pollInterval + fst (?b (Suc 0)) + pollInterval) p2"
    and f2: "fetchTimes p2 = fetchTimes p1 @ [0 + ?l0 + pollInterval]"
    using t1 j1 pollLoop_running [where backend = "?b" and n = "Suc 0" and job = j1
      and elapsed = "0 + ?l0 + pollInterval" and maxWaitMs = maxWaitMs and onProgress = onProgress and ps = p1] by blast
  have t2: "0 + ?l0 + pollInterval + fst (?b (Suc 0)) + pollInterval < maxWaitMs"
    using tm n1 by (simp add: pollInterval_def)
  obtain p3 where s3: "?L (Suc (Suc 0)) (0 + ?l0 + pollInterval + fst (?b (Suc 0)) + pollInterval) p2
        = ?L (Suc (Suc (Suc 0))) (0 + ?l0 + pollInterval + fst (?b (Suc 0)) + pollInterval
             + fst (?b (Suc (Suc 0))) + pollInterval) p3"
    and f3: "fetchTimes p3 = fetchTimes p2 @ [0 + ?l0 + pollInterval + fst (?b (Suc 0)) + pollInterval]"
    using t2 j2 pollLoop_running [where backend = "?b" and n = "Suc (Suc 0)" and job = j2
      and elapsed = "0 + ?l0 + pollInterval + fst (?b (Suc 0)) + pollInterval" and maxWaitMs = maxWaitMs
      and onProgress = onProgress and ps = p2] by blast
  let ?e3 = "0 + ?l0 + pollInterval + fst (?b (Suc 0)) + pollInterval + fst (?b (Suc (Suc 0))) + pollInterval"
  have t3: "?e3 < maxWaitMs" using tm n1 n2 by (simp add: pollInterval_def)
  have b3: "?b (Suc (Suc (Suc 0))) = (fst (?b (Suc (Suc (Suc 0)))), Json j3)"
    using j3(1) by (cases "?b (Suc (Suc (Suc 0)))") simp
  have s4: "?L (Suc (Suc (Suc 0))) ?e3 p3 =
      (fst (poll_try onProgress j3 (p3\<lparr>fetchTimes := fetchTimes p3 @ [?e3]\<rparr>)),
       ?e3 + fst (?b (Suc (Suc (Suc 0)))), Inr r)"
    using t3 b3 j3(3) poll_try_completed [OF j3(2), of onProgress "p3\<lparr>fetchTimes := fetchTimes p3 @ [?e3]\<rparr>"]
      pollLoop_return [where backend = "?b" and n = "Suc (Suc (Suc 0))" and job = j3 and elapsed = ?e3
        and maxWaitMs = maxWaitMs and onProgress = onProgress and ps = p3 and v = r
        and latency = "fst (?b (Suc (Suc (Suc 0))))"]
    by simp
  have all: "pollJobCompletion backend jobId onProgress maxWaitMs =
      (fst (poll_try onProgress j3 (p3\<lparr>fetchTimes := fetchTimes p3 @ [?e3]\<rparr>)),
       ?e3 + fst (?b (Suc (Suc (Suc 0)))), Inr r)"
    unfolding pollJobCompletion_def using s1 s2 s3 s4 by simp
  show ?thesis
    unfolding all using f1 f2 f3 n1 n2 n3
    by (simp add: poll_try_fetchTimes poll0_def pollInterval_def)
qed

text \<open>
  The backend of the specification's test, with requests that take no time and the
  default \<open>maxWaitMs\<close>: the result is \<open>{success: true, content: "X"}\<close> at 3000 ms.
\<close>

theorem poll_three_running_then_completed_witness:
  "snd (snd (pollJobCompletion backend_three_running ''job-1'' False 120000))
      = Inr (Some (JObj [(''success'', JBool True), (''content'', JStr ''X'')]))
   \<and> fetchTimes (fst (pollJobCompletion backend_three_running ''job-1'' False 120000))
      = [0, 1000, 2000, 3000]
   \<and> fst (snd (pollJobCompletion backend_three_running ''job-1'' False 120000)) = 3000"
  using poll_three_running_then_completed [of backend_three_running "''job-1''"
     "Some (JObj [(''success'', JBool True), (''content'', JStr ''X'')])" 120000 False]
  by (simp add: backend_three_running_def job0_def)

section \<open>The stream client: dispatch of frames\<close>

lemma run_source_heartbeats:
  "heartbeats_only hs \<Longrightarrow> run_source emoji src (map Message hs @ es) st = run_source emoji src es st"
  by (induction hs) (simp_all add: onmessage_def)

text \<open>
  C5, as the code has it. The handler tests the frame in this order. A heartbeat frame
  is dropped, whatever else it carries: a source behaves as if it had not been sent. A
  frame that is not a heartbeat and whose status is \<open>completed\<close>, \<open>failed\<close> or
  \<open>cancelled\<close> adds one progress line of its own (\<open>Complete!\<close>; \<open>Failed:\<close> with the
  error text or \<open>Unknown error\<close>, of type \<open>error\<close>; \<open>Job cancelled\<close>), closes the source
  and settles the promise (with the result; with the error text or \<open>Job failed\<close>; with
  \<open>Job cancelled by user\<close>); the frames that follow it are not handled, so the promise is
  settled once. Of the other frames, one with a non-empty message adds that message as
  a progress line, unchanged; one with a non-empty status and no (or an empty) message
  adds the line made from the status; one with neither changes nothing.
\<close>

theorem frame_dispatch:
  "(heartbeat data = Some True \<longrightarrow> onmessage emoji src data st = (st, None))
   \<and> (heartbeats_only hs \<longrightarrow>
      run_source emoji src (map Message hs @ es) st = run_source emoji src es st)
   \<and> (heartbeat data \<noteq> Some True \<and> status data = Some ''completed'' \<longrightarrow>
      onmessage emoji src data st
        = (close src (addProgress (emoji @ '' Complete!'') ''info'' st), Some (Resolve (result data)))
      \<and> run_source emoji src (Message data # es) st
        = (close src (addProgress (emoji @ '' Complete!'') ''info'' st), Settled (Resolve (result data))))
   \<and> (heartbeat data \<noteq> Some True \<and> status data = Some ''failed'' \<longrightarrow>
      onmessage emoji src data st
        = (close src (addProgress (emoji @ '' Failed: '' @ or_else (error data) ''Unknown error'') ''error'' st),
           Some (Reject (new_Error (or_else (error data) ''Job failed''))))
      \<and> run_source emoji src (Message data # es) st
        = (close src (addProgress (emoji @ '' Failed: '' @ or_else (error data) ''Unknown error'') ''error'' st),
           Settled (Reject (new_Error (or_else (error data) ''Job failed'')))))
   \<and> (heartbeat data \<noteq> Some True \<and> status data = Some ''cancelled'' \<longrightarrow>
      onmessage emoji src data st
        = (close src (addProgress (emoji @ '' Job cancelled'') ''info'' st),
           Some (Reject (new_Error ''Job cancelled by user'')))
      \<and> run_source emoji src (Message data # es) st
        = (close src (addProgress (emoji @ '' Job cancelled'') ''info'' st),
           Settled (Reject (new_Error ''Job cancelled by user''))))
   \<and> (heartbeat data \<noteq> Some True \<and> \<not> is_terminal data \<and> \<not> truthy (status data) \<and> \<not> truthy (message data) \<longrightarrow>
      onmessage emoji src data st = (st, None))
   \<and> (heartbeat data \<noteq> Some True \<and> \<not> is_terminal data \<and> status data = Some s \<and> s \<noteq> [] \<and> \<not> truthy (message data) \<longrightarrow>
      onmessage emoji src data st = (addProgress (arrows @ '' '' @ s) ''info'' st, None))
   \<and> (heartbeat data \<noteq> Some True \<and> \<not> is_terminal data \<and> message data = Some m \<and> m \<noteq> [] \<longrightarrow>
      onmessage emoji src data st = (addProgress m ''info'' st, None))
   \<and> progressCalls (close src (addProgress line type st)) = progressCalls st @ [(line, type)]
   \<and> closeCalls (close src (addProgress line type st)) = closeCalls st @ [src]"
proof (intro conjI impI)
  assume "heartbeat data = Some True"
  then show "onmessage emoji src data st = (st, None)" by (simp add: onmessage_def)
next
  assume "heartbeats_only hs"
  then show "run_source emoji src (map Message hs @ es) st = run_source emoji src es st"
    by (rule run_source_heartbeats)
next
  assume a: "heartbeat data \<noteq> Some True \<and> status data = Some ''completed''"
  then show c1: "onmessage emoji src data st
        = (close src (addProgress (emoji @ '' Complete!'') ''info'' st), Some (Resolve (result data)))"
    by (simp add: onmessage_def)
  then show "run_source emoji src (Message data # es) st
        = (close src (addProgress (emoji @ '' Complete!'') ''info'' st), Settled (Resolve (result data)))"
    by simp
next
  assume a: "heartbeat data \<noteq> Some True \<and> status data = Some ''failed''"
  then show c1: "onmessage emoji src data st
        = (close src (addProgress (emoji @ '' Failed: '' @ or_else (error data) ''Unknown error'') ''error'' st),
           Some (Reject (new_Error (or_else (error data) ''Job failed''))))"
    by (simp add: onmessage_def)
  then show "run_source emoji src (Message data # es) st
        = (close src (addProgress (emoji @ '' Failed: '' @ or_else (error data) ''Unknown error'') ''error'' st),
           Settled (Reject (new_Error (or_else (error data) ''Job failed''))))"
    by simp
next
  assume a: "heartbeat data \<noteq> Some True \<and> status data = Some ''cancelled''"
  then show c1: "onmessage emoji src data st
        = (close src (addProgress (emoji @ '' Job cancelled'') ''info'' st),
           Some (Reject (new_Error ''Job cancelled by user'')))"
    by (simp add: onmessage_def)
  then show "run_source emoji src (Message data # es) st
        = (close src (addProgress (emoji @ '' Job cancelled'') ''info'' st),
           Settled (Reject (new_Error ''Job cancelled by user'')))"
    by simp
next
  assume "heartbeat data \<noteq> Some True \<and> \<not> is_terminal data \<and> \<not> truthy (status data) \<and> \<not> truthy (message data)"
  then show "onmessage emoji src data st = (st, None)"
    by (auto simp: is_terminal_def onmessage_def)
next
  assume "heartbeat data \<noteq> Some True \<and> \<not> is_terminal data \<and> status data = Some s \<and> s \<noteq> [] \<and> \<not> truthy (message data)"
  then show "onmessage emoji src data st = (addProgress (arrows @ '' '' @ s) ''info'' st, None)"
    by (auto simp: is_terminal_def onmessage_def)
next
  assume "heartbeat data \<noteq> Some True \<and> \<not> is_terminal data \<and> message data = Some m \<and> m \<noteq> []"
  then show "onmessage emoji src data st = (addProgress m ''info'' st, None)"
    by (auto simp: is_terminal_def onmessage_def)
next
  show "progressCalls (close src (addProgress line type st)) = progressCalls st @ [(line, type)]"
    by (simp add: close_def addProgress_def)
next
  show "closeCalls (close src (addProgress line type st)) = closeCalls st @ [src]"
    by (simp add: close_def addProgress_def)
qed

text \<open>One frame of each sort, on the initial page state.\<close>

theorem frame_dispatch_witness:
  "onmessage hourglass 0 (frame0\<lparr>heartbeat := Some True, message := Some ''ping''\<rparr>) app0 = (app0, None)
   \<and> heartbeats_only [frame0\<lparr>heartbeat := Some True\<rparr>, frame0\<lparr>heartbeat := Some True\<rparr>]
   \<and> run_source hourglass 0 (map Message [frame0\<lparr>heartbeat := Some True\<rparr>, frame0\<lparr>heartbeat := Some True\<rparr>]
          @ [ErrorEvent]) app0 = run_source hourglass 0 [ErrorEvent] app0
   \<and> run_source hourglass 0 [Message (frame0\<lparr>status := Some ''completed'', result := Some (JNum 7)\<rparr>),
          Message (frame0\<lparr>status := Some ''failed''\<rparr>)] app0
        = (app0\<lparr>closeCalls := [0], progressCalls := [(hourglass @ '' Complete!'', ''info'')]\<rparr>,
           Settled (Resolve (Some (JNum 7))))
   \<and> onmessage hourglass 0 (frame0\<lparr>status := Some ''failed'', error := Some ''Model timed out''\<rparr>) app0
        = (app0\<lparr>closeCalls := [0], progressCalls := [(hourglass @ '' Failed: Model timed out'', ''error'')]\<rparr>,
           Some (Reject (JsError ''Error'' ''Model timed out'')))
   \<and> onmessage hourglass 0 (frame0\<lparr>status := Some ''cancelled''\<rparr>) app0
        = (app0\<lparr>closeCalls := [0], progressCalls := [(hourglass @ '' Job cancelled'', ''info'')]\<rparr>,
           Some (Reject (JsError ''Error'' ''Job cancelled by user'')))
   \<and> onmessage hourglass 0 frame0 app0 = (app0, None)
   \<and> onmessage hourglass 0 (frame0\<lparr>status := Some ''running''\<rparr>) app0
        = (addProgress (arrows @ '' '' @ ''running'') ''info'' app0, None)
   \<and> onmessage hourglass 0 (frame0\<lparr>status := Some ''running'', message := Some ''fetching''\<rparr>) app0
        = (addProgress ''fetching'' ''info'' app0, None)"
proof -
  have h: "onmessage hourglass 0 (frame0\<lparr>heartbeat := Some True, message := Some ''ping''\<rparr>) app0 = (app0, None)"
    using frame_dispatch [where data = "frame0\<lparr>heartbeat := Some True, message := Some ''ping''\<rparr>"
        and emoji = hourglass and src = 0 and st = app0]
    by (simp add: frame0_def)
  have a: "heartbeats_only [frame0\<lparr>heartbeat := Some True\<rparr>, frame0\<lparr>heartbeat := Some True\<rparr>]"
    by (simp add: frame0_def)
  have b: "run_source hourglass 0 (map Message [frame0\<lparr>heartbeat := Some True\<rparr>, frame0\<lparr>heartbeat := Some True\<rparr>]
          @ [ErrorEvent]) app0 = run_source hourglass 0 [ErrorEvent] app0"
    using a frame_dispatch [where hs = "[frame0\<lparr>heartbeat := Some True\<rparr>, frame0\<lparr>heartbeat := Some True\<rparr>]"
        and emoji = hourglass and src = 0 and es = "[ErrorEvent]" and st = app0] by blast
  have t1: "run_source hourglass 0 [Message (frame0\<lparr>status := Some ''completed'', result := Some (JNum 7)\<rparr>),
          Message (frame0\<lparr>status := Some ''failed''\<rparr>)] app0
        = (app0\<lparr>closeCalls := [0], progressCalls := [(hourglass @ '' Complete!'', ''info'')]\<rparr>,
           Settled (Resolve (Some (JNum 7))))"
    using frame_dispatch [where data = "frame0\<lparr>status := Some ''completed'', result := Some (JNum 7)\<rparr>"
        and es = "[Message (frame0\<lparr>status := Some ''failed''\<rparr>)]"
        and emoji = hourglass and src = 0 and st = app0]
    by (simp add: frame0_def app0_def close_def addProgress_def)
  have t2: "onmessage hourglass 0 (frame0\<lparr>status := Some ''failed'', error := Some ''Model timed out''\<rparr>) app0
        = (app0\<lparr>closeCalls := [0], progressCalls := [(hourglass @ '' Failed: Model timed out'', ''error'')]\<rparr>,
           Some (Reject (JsError ''Error'' ''Model timed out'')))"
    using frame_dispatch [where data = "frame0\<lparr>status := Some ''failed'', error := Some ''Model timed out''\<rparr>"
        and emoji = hourglass and src = 0 and st = app0]
    by (simp add: frame0_def app0_def close_def addProgress_def new_Error_def)
  have t3: "onmessage hourglass 0 (frame0\<lparr>status := Some ''cancelled''\<rparr>) app0
        = (app0\<lparr>closeCalls := [0], progressCalls := [(hourglass @ '' Job cancelled'', ''info'')]\<rparr>,
           Some (Reject (JsError ''Error'' ''Job cancelled by user'')))"
    using frame_dispatch [where data = "frame0\<lparr>status := Some ''cancelled''\<rparr>"
        and emoji = hourglass and src = 0 and st = app0]
    by (simp add: frame0_def app0_def close_def addProgress_def new_Error_def)
  have c: "onmessage hourglass 0 frame0 app0 = (app0, None)"
    using frame_dispatch [where data = frame0 and emoji = hourglass and src = 0 and st = app0]
    by (simp add: frame0_def is_terminal_def)
  have d: "onmessage hourglass 0 (frame0\<lparr>status := Some ''running''\<rparr>) app0
        = (addProgress (arrows @ '' '' @ ''running'') ''info'' app0, None)"
    using frame_dispatch [where data = "frame0\<lparr>status := Some ''running''\<rparr>" and s = "''running''"
        and emoji = hourglass and src = 0 and st = app0]
    by (simp add: frame0_def is_terminal_def)
  have e: "onmessage hourglass 0 (frame0\<lparr>status := Some ''running'', message := Some ''fetching''\<rparr>) app0
        = (addProgress ''fetching'' ''info'' app0, None)"
    using frame_dispatch [where data = "frame0\<lparr>status := Some ''running'', message := Some ''fetching''\<rparr>"
        and m = "''fetching''" and emoji = hourglass and src = 0 and st = app0]
    by (simp add: frame0_def is_terminal_def)
  from h a b t1 t2 t3 c d e show ?thesis by blast
qed

text \<open>
  C5 as stated fails: a frame whose message field is the empty string is not forwarded
  to \<open>addProgress\<close>; and two heartbeat frames followed by a \<open>completed\<close> frame leave one
  progress line, the one the terminal frame itself adds.
\<close>

theorem empty_message_not_forwarded:
  "onmessage hourglass 0 (frame0\<lparr>message := Some ''''\<rparr>) app0 = (app0, None)
   \<and> progressCalls (fst (run_source hourglass 0 (srv_beats ''job-1'' 0) app0))
        = [(hourglass @ '' Complete!'', ''info'')]"
  by (simp add: onmessage_def frame0_def srv_beats_def addProgress_def close_def app0_def)

section \<open>Polling: job not found\<close>

text \<open>
  C6, as the code has it. An error whose message contains \<open>Job not found\<close> (an error
  response without status that has this text, or a rejected request that has it) makes
  the poll reject with \<open>new Error('Job expired or not found')\<close>; the error of a rejected
  request (\<open>fetch\<close> or \<open>response.json()\<close>) without this text is rethrown unchanged,
  with its own kind. Every error that leaves the poll is a plain \<open>Error\<close>, unless it is
  such a rethrown error; so the remapped error has the kind of the errors the function
  builds itself, and among them it is told apart by its message only.
\<close>

theorem job_not_found_remapped:
  "(elapsed < maxWaitMs \<and> backend n = (latency, Json job) \<and> \<not> truthy (job_status job)
      \<and> job_error job = Some e \<and> js_includes e ''Job not found'' \<longrightarrow>
      snd (snd (pollLoop backend onProgress maxWaitMs n elapsed ps))
        = Inl (new_Error ''Job expired or not found''))
   \<and> (elapsed < maxWaitMs \<and> backend n = (latency, FetchRejects err) \<longrightarrow>
      snd (snd (pollLoop backend onProgress maxWaitMs n elapsed ps))
        = Inl (if js_includes (err_message err) ''Job not found''
               then new_Error ''Job expired or not found'' else err))
   \<and> (snd (snd (pollLoop backend onProgress maxWaitMs n elapsed ps)) = Inl x \<longrightarrow>
      err_name x = ''Error'' \<or> (\<exists>k lat. backend k = (lat, FetchRejects x)))
   \<and> err_name (new_Error ''Job expired or not found'') = ''Error''
   \<and> (err_message (poll_catch (new_Error m)) = ''Job expired or not found''
        \<longleftrightarrow> js_includes m ''Job not found'' \<or> m = ''Job expired or not found'')"
proof (intro conjI impI)
  assume a: "elapsed < maxWaitMs \<and> backend n = (latency, Json job) \<and> \<not> truthy (job_status job)
      \<and> job_error job = Some e \<and> js_includes e ''Job not found''"
  then have ne: "e \<noteq> []" by (auto simp: js_includes_def)
  let ?ps0 = "ps\<lparr>fetchTimes := fetchTimes ps @ [elapsed]\<rparr>"
  from a ne have "poll_try onProgress job ?ps0 = (?ps0, Throw (new_Error e))"
    by (simp add: poll_try_def)
  with a pollLoop_throw [where backend = backend and n = n and job = job and elapsed = elapsed
        and maxWaitMs = maxWaitMs and latency = latency and onProgress = onProgress and ps = ps
        and e = "new_Error e"]
  have "pollLoop backend onProgress maxWaitMs n elapsed ps =
        (?ps0, elapsed + latency, Inl (poll_catch (new_Error e)))"
    by simp
  with a show "snd (snd (pollLoop backend onProgress maxWaitMs n elapsed ps))
        = Inl (new_Error ''Job expired or not found'')"
    by (simp add: poll_catch_def new_Error_def)
next
  assume "elapsed < maxWaitMs \<and> backend n = (latency, FetchRejects err)"
  then show "snd (snd (pollLoop backend onProgress maxWaitMs n elapsed ps))
        = Inl (if js_includes (err_message err) ''Job not found''
               then new_Error ''Job expired or not found'' else err)"
    by (subst pollLoop.simps) (simp add: Let_def poll_catch_def)
next
  assume "snd (snd (pollLoop backend onProgress maxWaitMs n elapsed ps)) = Inl x"
  then show "err_name x = ''Error'' \<or> (\<exists>k lat. backend k = (lat, FetchRejects x))"
    by (rule pollLoop_error_kind)
next
  show "err_name (new_Error ''Job expired or not found'') = ''Error''"
    by (simp add: new_Error_def)
next
  show "err_message (poll_catch (new_Error m)) = ''Job expired or not found''
        \<longleftrightarrow> js_includes m ''Job not found'' \<or> m = ''Job expired or not found''"
    by (simp add: poll_catch_def new_Error_def)
qed

text \<open>
  The response \<open>{error: "Job not found"}\<close> at the first request, and a \<open>fetch\<close> that
  is rejected with a \<open>TypeError\<close>.
\<close>

theorem job_not_found_remapped_witness:
  "snd (snd (pollLoop (backend_const (job0\<lparr>job_error := Some ''Job not found''\<rparr>) ''job-1'')
        False 120000 0 0 poll0)) = Inl (JsError ''Error'' ''Job expired or not found'')
   \<and> snd (snd (pollLoop (backend_fetch_fails ''job-1'') False 120000 0 0 poll0))
        = Inl (JsError ''TypeError'' ''Failed to fetch'')
   \<and> (\<exists>k lat. backend_fetch_fails ''job-1'' k = (lat, FetchRejects (JsError ''TypeError'' ''Failed to fetch'')))"
proof -
  have a: "snd (snd (pollLoop (backend_const (job0\<lparr>job_error := Some ''Job not found''\<rparr>) ''job-1'')
        False 120000 0 0 poll0)) = Inl (JsError ''Error'' ''Job expired or not found'')"
    using job_not_found_remapped [where backend = "backend_const (job0\<lparr>job_error := Some ''Job not found''\<rparr>) ''job-1''"
      and job = "job0\<lparr>job_error := Some ''Job not found''\<rparr>" and e = "''Job not found''"
      and n = 0 and elapsed = 0 and maxWaitMs = 120000 and latency = 0 and ps = poll0 and onProgress = False]
    by (simp add: job0_def backend_const_def js_includes_def new_Error_def)
  have b: "snd (snd (pollLoop (backend_fetch_fails ''job-1'') False 120000 0 0 poll0))
        = Inl (JsError ''TypeError'' ''Failed to fetch'')"
    using job_not_found_remapped [where backend = "backend_fetch_fails ''job-1''"
      and err = "JsError ''TypeError'' ''Failed to fetch''"
      and n = 0 and elapsed = 0 and maxWaitMs = 120000 and latency = 0 and ps = poll0 and onProgress = False]
    by (simp add: backend_fetch_fails_def js_includes_def sublist_Cons_right)
  have c: "\<exists>k lat. backend_fetch_fails ''job-1'' k = (lat, FetchRejects (JsError ''TypeError'' ''Failed to fetch''))"
    using b job_not_found_remapped [where backend = "backend_fetch_fails ''job-1''"
      and x = "JsError ''TypeError'' ''Failed to fetch''"
      and n = 0 and elapsed = 0 and maxWaitMs = 120000 and ps = poll0 and onProgress = False]
    by simp
  from a b c show ?thesis by blast
qed

text \<open>
  C6 as stated fails: the error for an unknown job and the error for another error
  response have the same kind, \<open>Error\<close>; they differ in their message text only.
\<close>

theorem expired_same_kind_as_transport_error:
  "pollJobCompletion (backend_const (job0\<lparr>job_error := Some ''Job not found''\<rparr>)) ''job-1'' False 120000
     = (\<lparr>progressDelivered = [], fetchTimes = [0]\<rparr>, 0, Inl (JsError ''Error'' ''Job expired or not found''))
   \<and> pollJobCompletion (backend_const (job0\<lparr>job_error := Some ''Service unavailable''\<rparr>)) ''job-1'' False 120000
     = (\<lparr>progressDelivered = [], fetchTimes = [0]\<rparr>, 0, Inl (JsError ''Error'' ''Service unavailable''))"
proof -
  have a: "pollJobCompletion (backend_const (job0\<lparr>job_error := Some ''Job not found''\<rparr>)) ''job-1'' False 120000
     = (\<lparr>progressDelivered = [], fetchTimes = [0]\<rparr>, 0, Inl (JsError ''Error'' ''Job expired or not found''))"
    unfolding pollJobCompletion_def
    by (subst pollLoop.simps)
       (simp add: backend_const_def job0_def poll0_def poll_try_def poll_catch_def new_Error_def
          js_includes_def)
  have b: "pollJobCompletion (backend_const (job0\<lparr>job_error := Some ''Service unavailable''\<rparr>)) ''job-1'' False 120000
     = (\<lparr>progressDelivered = [], fetchTimes = [0]\<rparr>, 0, Inl (JsError ''Error'' ''Service unavailable''))"
    unfolding pollJobCompletion_def
    by (subst pollLoop.simps)
       (simp add: backend_const_def job0_def poll0_def poll_try_def poll_catch_def new_Error_def
          js_includes_def sublist_Cons_right)
  from a b show ?thesis by simp
qed

section \<open>Polling: progress delivery and error responses\<close>




section \<open>Starting a job without a job id\<close>

text \<open>
  C8. A successful start response without \<open>job_id\<close>: every pipeline runner goes on
  with the job id \<open>undefined\<close> and opens the stream of that name, where
  \<open>fetchArticleFromUrl\<close> throws \<open>No job ID returned\<close>. A response that is not \<open>ok\<close> makes
  every runner throw.
\<close>

theorem run_start_without_job_id:
  "run_start kind \<lparr>ok = True, body_error = None, body_message = None, job_id = None\<rparr> = Inr None
   \<and> stream_url None = ''/api/job/undefined/stream''
   \<and> fetchArticleFromUrl_start \<lparr>ok = True, body_error = None, body_message = None, job_id = None\<rparr>
       = Inl (new_Error ''No job ID returned'')
   \<and> run_start kind (r\<lparr>ok := False\<rparr>) = Inl (new_Error (or_else (body_error r) (failure_text kind)))"
  by (simp add: run_start_def fetchArticleFromUrl_start_def stream_url_def)

section \<open>The stream client: frames with a status and a message\<close>

text \<open>
  C9, as the code has it. For a frame that is not a heartbeat and carries a status other
  than \<open>completed\<close>, \<open>failed\<close> and \<open>cancelled\<close>: the promise is not settled; when the
  message is a non-empty string, exactly one progress line is added, the message itself,
  and no line is made from the status; when the message is absent or empty (and the
  status is not empty), exactly one line is added, the one made from the status.
\<close>

theorem status_message_frame:
  "heartbeat data \<noteq> Some True \<and> \<not> is_terminal data \<and> status data = Some s \<longrightarrow>
     snd (onmessage emoji src data st) = None
     \<and> (message data = Some m \<and> m \<noteq> [] \<longrightarrow>
          progressCalls (fst (onmessage emoji src data st)) = progressCalls st @ [(m, ''info'')])
     \<and> (\<not> truthy (message data) \<and> s \<noteq> [] \<longrightarrow>
          progressCalls (fst (onmessage emoji src data st))
            = progressCalls st @ [(arrows @ '' '' @ s, ''info'')])"
  by (auto simp: is_terminal_def onmessage_def addProgress_def)

text \<open>A \<open>running\<close> frame with and without a message.\<close>

theorem status_message_frame_witness:
  "snd (onmessage hourglass 0 (frame0\<lparr>status := Some ''running'', message := Some ''scoring''\<rparr>) app0) = None
   \<and> progressCalls (fst (onmessage hourglass 0
         (frame0\<lparr>status := Some ''running'', message := Some ''scoring''\<rparr>) app0))
       = progressCalls app0 @ [(''scoring'', ''info'')]
   \<and> progressCalls (fst (onmessage hourglass 0 (frame0\<lparr>status := Some ''running''\<rparr>) app0))
       = progressCalls app0 @ [(arrows @ '' '' @ ''running'', ''info'')]"
  using status_message_frame [where data = "frame0\<lparr>status := Some ''running'', message := Some ''scoring''\<rparr>"
      and s = "''running''" and m = "''scoring''" and emoji = hourglass and src = 0 and st = app0]
    status_message_frame [where data = "frame0\<lparr>status := Some ''running''\<rparr>"
      and s = "''running''" and emoji = hourglass and src = 0 and st = app0]
  by (simp add: frame0_def is_terminal_def)

text \<open>
  C9 as stated fails: a \<open>running\<close> frame whose message field is present and empty gets
  the line made from its status, and its message is not forwarded.
\<close>

theorem empty_message_status_line:
  "onmessage hourglass 0 (frame0\<lparr>status := Some ''running'', message := Some ''''\<rparr>) app0
     = (addProgress (arrows @ '' running'') ''info'' app0, None)"
  by (simp add: onmessage_def frame0_def)

section \<open>URL validation\<close>

text \<open>
  C10. \<open>isValidUrl\<close> returns a boolean for every string: \<open>true\<close> exactly when the
  \<open>URL\<close> constructor accepts the string and the protocol of the parsed URL is \<open>http:\<close> or
  \<open>https:\<close>, and \<open>false\<close> otherwise, also when the constructor throws.
\<close>

theorem isValidUrl_iff:
  "isValidUrl new_URL string
     = (\<exists>u. new_URL string = Some u \<and> (protocol u = ''http:'' \<or> protocol u = ''https:''))"
  by (simp add: isValidUrl_def split: option.splits)

end
